theory Spec2Isabelle
  imports Main
begin

section \<open>Strings and the handle validators\<close>

text \<open>
  A Go \<open>string\<close> is a sequence of bytes and is modelled as a \<open>string\<close> (a list of
  8-bit characters).

  \<open>strings.ToLower\<close> and \<open>strings.Trim\<close> are functions of Go's standard library.
  \<open>ToLower\<close> is modelled as it works on ASCII text, where it replaces the bytes
  \<open>A\<close>..\<open>Z\<close> by \<open>a\<close>..\<open>z\<close> and keeps every other byte; on text with bytes
  beyond ASCII the library maps whole runes, which the model does not follow. The
  properties of the validators below are stated in terms of \<open>ToLower handle\<close> and use
  nothing else about it. \<open>Trim s cutset\<close> with an ASCII cutset removes, byte by byte,
  the trailing and then the leading bytes of \<open>s\<close> that occur in \<open>cutset\<close>.
\<close>

definition toLowerByte :: "char \<Rightarrow> char" where
  "toLowerByte c =
     (let n = (of_char c :: nat)
      in if 65 \<le> n \<and> n \<le> 90 then char_of (n + 32) else c)"

definition ToLower :: "string \<Rightarrow> string" where
  "ToLower s = map toLowerByte s"

definition TrimRight :: "string \<Rightarrow> string \<Rightarrow> string" where
  "TrimRight s cutset = rev (dropWhile (\<lambda>c. c \<in> set cutset) (rev s))"

definition TrimLeft :: "string \<Rightarrow> string \<Rightarrow> string" where
  "TrimLeft s cutset = dropWhile (\<lambda>c. c \<in> set cutset) s"

definition Trim :: "string \<Rightarrow> string \<Rightarrow> string" where
  "Trim s cutset = TrimLeft (TrimRight s cutset) cutset"

text \<open>
  The alphabets and the four validators of \<open>handlers.go\<close>, lines 407 to 427.
\<close>

definition chars :: string where
  "chars = ''abcdefghijklmnopqrstuvwxyz''"

definition twitterChars :: string where
  "twitterChars = chars @ ''_''"

definition facebookChars :: string where
  "facebookChars = chars @ ''.''"

definition githubChars :: string where
  "githubChars = chars @ ''-''"

definition instagramChars :: string where
  "instagramChars = chars"

definition isValidTwitterHandle :: "string \<Rightarrow> bool" where
  "isValidTwitterHandle handle = (Trim (ToLower handle) twitterChars = [])"

definition isValidFacebookHandle :: "string \<Rightarrow> bool" where
  "isValidFacebookHandle handle = (Trim (ToLower handle) facebookChars = [])"

definition isValidGitHubHandle :: "string \<Rightarrow> bool" where
  "isValidGitHubHandle handle = (Trim (ToLower handle) githubChars = [])"

definition isValidInstagramHandle :: "string \<Rightarrow> bool" where
  "isValidInstagramHandle handle = (Trim (ToLower handle) instagramChars = [])"

section \<open>Pages and the store\<close>

text \<open>
  A time stamp is an instant counted from some origin.
\<close>

type_synonym Time = nat

text \<open>
  Modelled from the spec: the declaration of \<open>Page\<close> is not among the sources. A page
  has the fields that \<open>apiPut\<close> fills in at lines 111 to 128, which are those of
  section 3 of the spec; the field \<open>Id\<close> is written \<open>Id'\<close>.
\<close>

record Page =
  Id' :: string
  Name :: string
  Title :: string
  Author :: string
  Website :: string
  Content :: string
  Twitter :: string
  Facebook :: string
  GitHub :: string
  Instagram :: string
  Inserted :: Time
  Updated :: Time
  Html :: string

text \<open>
  Modelled from the spec: section 4.2, whose store is not among the sources. The store
  has a by-name bucket from a page's name to the page and a by-id bucket from a page's
  id to its name. Whether the backend fails does not depend on what a handler does, so
  it is part of the store's state: \<open>getErr\<close> and \<open>putErr\<close> hold the error that a read
  or a commit meets, if any.
\<close>

record DB =
  byName :: "string \<rightharpoonup> Page"
  byId :: "string \<rightharpoonup> string"
  getErr :: "string option"
  putErr :: "string option"

text \<open>
  Modelled from the spec: \<open>storePutPage\<close> is \<open>Put\<close> of section 4.2. In one
  transaction it writes the page under its name in the by-name bucket and its name under
  its id in the by-id bucket; when the serialisation or the commit fails it returns the
  error and applies nothing.
\<close>

definition storePutPage :: "DB \<Rightarrow> Page \<Rightarrow> string + DB" where
  "storePutPage db page =
     (case putErr db of
        Some e \<Rightarrow> Inl e
      | None \<Rightarrow> Inr (db\<lparr>byName := (byName db)(Name page \<mapsto> page),
                         byId := (byId db)(Id' page \<mapsto> Name page)\<rparr>))"

text \<open>
  Modelled from the spec: \<open>storeGetPage\<close> is \<open>GetByName\<close> of section 4.2. It returns
  the page stored under the name, no page and no error when the name is absent, and an
  error only when the backend fails.
\<close>

definition storeGetPage :: "DB \<Rightarrow> string \<Rightarrow> string + Page option" where
  "storeGetPage db name =
     (case getErr db of
        Some e \<Rightarrow> Inl e
      | None \<Rightarrow> Inr (byName db name))"

section \<open>What the handlers take from outside\<close>

text \<open>
  The handlers call four functions that are neither in the sources nor simple enough to
  write down here; they are parameters of the model.
  \<^item> \<open>Slugify\<close> is \<open>slugify.Slugify\<close>.
  \<^item> \<open>ParseRequestURI website\<close> is \<open>url.ParseRequestURI(website)\<close> followed by
    \<open>u.String()\<close>: \<open>None\<close> when parsing returns an error, the string of the parsed URL
    otherwise.
  \<^item> \<open>MarkdownCommon\<close> is \<open>blackfriday.MarkdownCommon\<close>.
  \<^item> \<open>randStr n\<close> draws a string from a generator of type \<open>'g\<close> and returns it with
    the generator's next state.
  The clock \<open>time.Now()\<close> is read once by each handler; its value is the argument
  \<open>now\<close>.
\<close>

record 'g env =
  Slugify :: "string \<Rightarrow> string"
  ParseRequestURI :: "string \<Rightarrow> string option"
  MarkdownCommon :: "string \<Rightarrow> string"
  randStr :: "nat \<Rightarrow> 'g \<Rightarrow> string \<times> 'g"

text \<open>
  A request is its form: \<open>r.FormValue(key)\<close> is the value under \<open>key\<close>, and the empty
  string when the form has no such key.
\<close>

type_synonym Request = "string \<rightharpoonup> string"

definition FormValue :: "Request \<Rightarrow> string \<Rightarrow> string" where
  "FormValue r key = (case r key of None \<Rightarrow> [] | Some v \<Rightarrow> v)"

text \<open>
  What a handler writes to the client is the call it ends with: \<open>sendError(w, msg)\<close>,
  \<open>http.Error(w, msg, code)\<close> or \<open>sendJson(w, data)\<close>, where \<open>data\<close> is the
  structure with the fields \<open>Ok\<close>, \<open>Msg\<close> and \<open>Payload\<close>. The lines that the handlers
  print to the log are left out.
\<close>

record data =
  Ok :: bool
  Msg :: string
  Payload :: "string \<rightharpoonup> string"

datatype response =
  sendError string
  | httpError string nat
  | sendJson data

section \<open>The handlers\<close>

text \<open>
  Lines 70 to 107 of \<open>apiPut\<close> and lines 188 to 225 of \<open>apiPost\<close> are the same text:
  the checks of the title, the website and the four handles. \<open>validation\<close> is that
  text. It yields the message of the first check that fails, or the slug together with
  the website as it is after line 82 (line 200).
\<close>

definition validation :: "'g env \<Rightarrow> Request \<Rightarrow> string + string \<times> string" where
  "validation env r =
     (let title = FormValue r ''title'';
          website = FormValue r ''website'';
          twitter = FormValue r ''twitter'';
          github = FormValue r ''github'';
          facebook = FormValue r ''facebook'';
          instagram = FormValue r ''instagram'';
          slug = Slugify env title
      in if slug = [] then Inl ''Provide a title''
         else (case (if website \<noteq> [] then ParseRequestURI env website else Some website) of
             None \<Rightarrow> Inl ''Invalid website URL''
           | Some website \<Rightarrow>
               if twitter \<noteq> [] \<and> \<not> isValidTwitterHandle twitter
               then Inl ''Invalid Twitter Handle. Only letters, numbers, and underscore allowed.''
               else if github \<noteq> [] \<and> \<not> isValidGitHubHandle github
               then Inl ''Invalid GitHub Handle. Only letters, numbers, and dash allowed.''
               else if facebook \<noteq> [] \<and> \<not> isValidFacebookHandle facebook
               then Inl ''Invalid Facebook Handle. Only letters, numbers, and dot allowed.''
               else if instagram \<noteq> [] \<and> \<not> isValidInstagramHandle instagram
               then Inl ''Invalid Instagram Handle. Only letters and numbers allowed.''
               else Inr (slug, website)))"

definition apiPut :: "'g env \<Rightarrow> Time \<Rightarrow> Request \<Rightarrow> DB \<Rightarrow> 'g \<Rightarrow> response \<times> DB \<times> 'g" where
  "apiPut env now r db g =
     (case validation env r of
        Inl msg \<Rightarrow> (sendError msg, db, g)
      | Inr (slug, website) \<Rightarrow>
          (case randStr env 16 g of (ident, g1) \<Rightarrow>
            (case randStr env 8 g1 of (suffix, g2) \<Rightarrow>
              (let page = \<lparr>Id' = ident,
                           Name = slug @ ''-'' @ suffix,
                           Title = FormValue r ''title'',
                           Author = FormValue r ''author'',
                           Website = website,
                           Content = FormValue r ''content'',
                           Twitter = FormValue r ''twitter'',
                           Facebook = FormValue r ''facebook'',
                           GitHub = FormValue r ''github'',
                           Instagram = FormValue r ''instagram'',
                           Inserted = now,
                           Updated = now,
                           Html = []\<rparr>;
                   page = page\<lparr>Html := MarkdownCommon env (Content page)\<rparr>
               in (case storePutPage db page of
                     Inl errIns \<Rightarrow> (httpError errIns 500, db, g2)
                   | Inr db' \<Rightarrow>
                       (sendJson \<lparr>Ok = True, Msg = ''Saved'',
                                  Payload = [''id'' \<mapsto> Id' page, ''name'' \<mapsto> Name page]\<rparr>,
                        db', g2))))))"

definition apiPost :: "'g env \<Rightarrow> Time \<Rightarrow> Request \<Rightarrow> DB \<Rightarrow> response \<times> DB" where
  "apiPost env now r db =
     (case storeGetPage db (FormValue r ''name'') of
        Inl errGet \<Rightarrow> (sendError ''Internal Error. Please try again later.'', db)
      | Inr None \<Rightarrow> (sendError ''This page name does not exist.'', db)
      | Inr (Some existPage) \<Rightarrow>
          (if Id' existPage \<noteq> FormValue r ''id'' then (sendError ''Permission denied.'', db)
           else (case validation env r of
                   Inl msg \<Rightarrow> (sendError msg, db)
                 | Inr (slug, website) \<Rightarrow>
                     (let existPage = existPage\<lparr>Title := FormValue r ''title'',
                                                Content := FormValue r ''content'',
                                                Author := FormValue r ''author'',
                                                Website := website,
                                                Twitter := FormValue r ''twitter'',
                                                Facebook := FormValue r ''facebook'',
                                                GitHub := FormValue r ''github'',
                                                Instagram := FormValue r ''instagram'',
                                                Updated := now\<rparr>;
                          existPage = existPage\<lparr>Html := MarkdownCommon env (FormValue r ''content'')\<rparr>
                      in (case storePutPage db existPage of
                            Inl errIns \<Rightarrow> (httpError errIns 500, db)
                          | Inr db' \<Rightarrow>
                              (sendJson \<lparr>Ok = True, Msg = ''Saved'',
                                         Payload = [''id'' \<mapsto> Id' existPage,
                                                    ''name'' \<mapsto> Name existPage]\<rparr>,
                               db'))))))"

section \<open>An instance for running the handlers\<close>

text \<open>
  To run the handlers on a request, the four outside functions need values. The
  instance \<open>asciiEnv\<close> works on ASCII text.
  \<^item> \<open>asciiSlugify\<close> lower-cases the title, keeps the letters and digits, writes one
    dash for each run of other characters and trims the dashes at both ends (section 6
    of the spec).
  \<^item> \<open>asciiParseRequestURI\<close> accepts a website that starts with the scheme \<open>http\<close> or
    \<open>https\<close> in either case, and gives it back with the scheme in lower case.
  \<^item> \<open>asciiMarkdown\<close> renders a line of plain text as one paragraph.
  \<^item> \<open>tapeRandStr\<close> reads the strings of a tape one after the other.
\<close>

definition validCharacter :: "char \<Rightarrow> bool" where
  "validCharacter c = (c \<in> set (chars @ ''0123456789''))"

fun slugRunes :: "bool \<Rightarrow> string \<Rightarrow> string" where
  "slugRunes lastCharacterWasInvalid [] = []"
| "slugRunes lastCharacterWasInvalid (c # cs) =
     (if validCharacter c then c # slugRunes False cs
      else if lastCharacterWasInvalid then slugRunes True cs
      else CHR ''-'' # slugRunes True cs)"

definition asciiSlugify :: "string \<Rightarrow> string" where
  "asciiSlugify title = Trim (slugRunes False (ToLower title)) ''-''"

definition asciiParseRequestURI :: "string \<Rightarrow> string option" where
  "asciiParseRequestURI website =
     (if ToLower (take 7 website) = ''http://'' then Some (''http://'' @ drop 7 website)
      else if ToLower (take 8 website) = ''https://'' then Some (''https://'' @ drop 8 website)
      else None)"

definition asciiMarkdown :: "string \<Rightarrow> string" where
  "asciiMarkdown source = ''<p>'' @ source @ ''</p>'' @ [CHR 0x0A]"

definition tapeRandStr :: "nat \<Rightarrow> string list \<Rightarrow> string \<times> string list" where
  "tapeRandStr n tape =
     (case tape of
        [] \<Rightarrow> (replicate n CHR ''x'', [])
      | s # rest \<Rightarrow> (take n s, rest))"

definition asciiEnv :: "string list env" where
  "asciiEnv = \<lparr>Slugify = asciiSlugify,
               ParseRequestURI = asciiParseRequestURI,
               MarkdownCommon = asciiMarkdown,
               randStr = tapeRandStr\<rparr>"

definition emptyDB :: DB where
  "emptyDB = \<lparr>byName = Map.empty, byId = Map.empty, getErr = None, putErr = None\<rparr>"

section \<open>Sample requests and stores\<close>

text \<open>
  A tape of two random strings, a request that creates a page, the page and the store
  that it leaves behind, a request that edits the page and a request that tries to edit
  it with a guessed id and a title of punctuation only.
\<close>

definition tape :: "string list" where
  "tape = [''0123456789abcdef'', ''k3j9x2mq'']"

definition helloRequest :: Request where
  "helloRequest = [''title'' \<mapsto> ''Hello, World!'', ''content'' \<mapsto> ''hi'',
                   ''author'' \<mapsto> ''Ann'', ''website'' \<mapsto> ''HTTP://example.com'']"

definition helloPage :: Page where
  "helloPage = \<lparr>Id' = ''0123456789abcdef'', Name = ''hello-world-k3j9x2mq'',
                 Title = ''Hello, World!'', Author = ''Ann'',
                 Website = ''http://example.com'', Content = ''hi'',
                 Twitter = [], Facebook = [], GitHub = [], Instagram = [],
                 Inserted = 7, Updated = 7, Html = ''<p>hi</p>'' @ [CHR 0x0A]\<rparr>"

definition helloDB :: DB where
  "helloDB = emptyDB\<lparr>byName := [''hello-world-k3j9x2mq'' \<mapsto> helloPage],
                      byId := [''0123456789abcdef'' \<mapsto> ''hello-world-k3j9x2mq'']\<rparr>"

definition editRequest :: Request where
  "editRequest = [''id'' \<mapsto> ''0123456789abcdef'', ''name'' \<mapsto> ''hello-world-k3j9x2mq'',
                  ''title'' \<mapsto> ''Hello again'', ''content'' \<mapsto> ''more'',
                  ''author'' \<mapsto> ''Ann'']"

definition guessRequest :: Request where
  "guessRequest = [''id'' \<mapsto> ''guess'', ''name'' \<mapsto> ''hello-world-k3j9x2mq'',
                   ''title'' \<mapsto> ''!!!'', ''content'' \<mapsto> ''spam'']"

section \<open>Rendered stores\<close>

text \<open>
  A store is rendered when the markup of each of its pages is the rendering of that
  page's content.
\<close>

definition rendered :: "'g env \<Rightarrow> DB \<Rightarrow> bool" where
  "rendered env db =
     (\<forall>name page. byName db name = Some page \<longrightarrow> Html page = MarkdownCommon env (Content page))"

section \<open>Properties of the validators\<close>

lemma dropWhile_all_Nil: "(\<forall>x\<in>set (dropWhile P ys). P x) \<longleftrightarrow> dropWhile P ys = []"
proof (cases "dropWhile P ys")
  case Nil
  show ?thesis unfolding Nil by simp
next
  case (Cons z zs)
  have "\<not> P (hd (dropWhile P ys))"
    by (rule hd_dropWhile) (simp add: Cons)
  then have "\<not> P z" by (simp add: Cons)
  then show ?thesis unfolding Cons by simp
qed

lemma Trim_empty_iff: "Trim s cutset = [] \<longleftrightarrow> set s \<subseteq> set cutset"
proof -
  let ?P = "\<lambda>c. c \<in> set cutset"
  have "Trim s cutset = [] \<longleftrightarrow> dropWhile ?P (rev (dropWhile ?P (rev s))) = []"
    by (simp only: Trim_def TrimLeft_def TrimRight_def)
  also have "\<dots> \<longleftrightarrow> (\<forall>x\<in>set (dropWhile ?P (rev s)). ?P x)"
    by (simp only: dropWhile_eq_Nil_conv set_rev)
  also have "\<dots> \<longleftrightarrow> dropWhile ?P (rev s) = []"
    by (rule dropWhile_all_Nil)
  also have "\<dots> \<longleftrightarrow> (\<forall>x\<in>set s. ?P x)"
    by (simp only: dropWhile_eq_Nil_conv set_rev)
  also have "\<dots> \<longleftrightarrow> set s \<subseteq> set cutset"
    by (rule subset_eq [symmetric])
  finally show ?thesis .
qed

lemma validators_letters_only:
  "isValidTwitterHandle h \<longleftrightarrow> set (ToLower h) \<subseteq> set (chars @ ''_'')"
  "isValidGitHubHandle h \<longleftrightarrow> set (ToLower h) \<subseteq> set (chars @ ''-'')"
  "isValidFacebookHandle h \<longleftrightarrow> set (ToLower h) \<subseteq> set (chars @ ''.'')"
  "isValidInstagramHandle h \<longleftrightarrow> set (ToLower h) \<subseteq> set chars"
  by (simp_all only: isValidTwitterHandle_def isValidGitHubHandle_def
      isValidFacebookHandle_def isValidInstagramHandle_def Trim_empty_iff
      twitterChars_def githubChars_def facebookChars_def instagramChars_def)

text \<open>
  What the validators accept and reject among the handles that section 8 of the spec
  lists.
\<close>

lemma handle_examples:
  "isValidTwitterHandle ''john_doe'' \<and> \<not> isValidTwitterHandle ''john doe''
   \<and> isValidGitHubHandle ''my-repo'' \<and> \<not> isValidGitHubHandle ''my.repo''"
  by code_simp

text \<open>
  Claim C10. Whatever handle the instagram validator accepts, the twitter, github and
  facebook validators accept too: the instagram alphabet is part of each of the other
  three.
\<close>

theorem instagram_handle_valid_everywhere:
  "isValidInstagramHandle h \<Longrightarrow>
     isValidTwitterHandle h \<and> isValidGitHubHandle h \<and> isValidFacebookHandle h"
proof -
  assume "isValidInstagramHandle h"
  then have "set (ToLower h) \<subseteq> set chars"
    by (simp only: validators_letters_only)
  then have "set (ToLower h) \<subseteq> set (chars @ cs)" for cs
    by (simp only: set_append) (rule le_supI1)
  then show ?thesis
    by (simp only: validators_letters_only simp_thms)
qed

theorem instagram_handle_valid_everywhere_witness:
  "isValidInstagramHandle ''JohnDoe'' \<and> isValidTwitterHandle ''JohnDoe''
     \<and> isValidGitHubHandle ''JohnDoe'' \<and> isValidFacebookHandle ''JohnDoe''"
proof -
  have h: "isValidInstagramHandle ''JohnDoe''"
    by code_simp
  from instagram_handle_valid_everywhere [OF h] h show ?thesis
    by (simp only: simp_thms)
qed

section \<open>What a successful request has done\<close>

lemma validation_title:
  "Slugify env (FormValue r ''title'') = [] \<Longrightarrow> validation env r = Inl ''Provide a title''"
  by (simp add: validation_def)


lemma validation_Inr:
  assumes "validation env r = Inr (slug, website)"
  shows "slug = Slugify env (FormValue r ''title'')" and "slug \<noteq> []"
    and "FormValue r ''website'' = [] \<Longrightarrow> website = []"
    and "FormValue r ''website'' \<noteq> [] \<Longrightarrow>
         ParseRequestURI env (FormValue r ''website'') = Some website"
  using assms
  by (auto simp add: validation_def Let_def split: if_splits option.splits)

lemma storePutPage_Inr:
  "storePutPage db page = Inr db' \<Longrightarrow>
     putErr db = None \<and>
     db' = db\<lparr>byName := (byName db)(Name page \<mapsto> page),
              byId := (byId db)(Id' page \<mapsto> Name page)\<rparr>"
  by (auto simp add: storePutPage_def split: option.splits)

lemma apiPut_sendJson:
  assumes "apiPut env now r db g = (sendJson d, db', g')"
  shows "\<exists>slug website ident g1 suffix page.
           validation env r = Inr (slug, website)
         \<and> randStr env 16 g = (ident, g1) \<and> randStr env 8 g1 = (suffix, g')
         \<and> page = \<lparr>Id' = ident, Name = slug @ ''-'' @ suffix,
                    Title = FormValue r ''title'', Author = FormValue r ''author'',
                    Website = website, Content = FormValue r ''content'',
                    Twitter = FormValue r ''twitter'', Facebook = FormValue r ''facebook'',
                    GitHub = FormValue r ''github'', Instagram = FormValue r ''instagram'',
                    Inserted = now, Updated = now,
                    Html = MarkdownCommon env (FormValue r ''content'')\<rparr>
         \<and> storePutPage db page = Inr db'
         \<and> d = \<lparr>Ok = True, Msg = ''Saved'',
                 Payload = [''id'' \<mapsto> Id' page, ''name'' \<mapsto> Name page]\<rparr>"
  using assms
  by (auto simp add: apiPut_def Let_def split: sum.splits prod.splits)

lemma apiPost_sendJson:
  assumes "apiPost env now r db = (sendJson d, db')"
  shows "\<exists>slug website existPage page.
           storeGetPage db (FormValue r ''name'') = Inr (Some existPage)
         \<and> Id' existPage = FormValue r ''id''
         \<and> validation env r = Inr (slug, website)
         \<and> page = existPage\<lparr>Title := FormValue r ''title'',
                     Content := FormValue r ''content'', Author := FormValue r ''author'',
                     Website := website, Twitter := FormValue r ''twitter'',
                     Facebook := FormValue r ''facebook'', GitHub := FormValue r ''github'',
                     Instagram := FormValue r ''instagram'', Updated := now,
                     Html := MarkdownCommon env (FormValue r ''content'')\<rparr>
         \<and> storePutPage db page = Inr db'
         \<and> d = \<lparr>Ok = True, Msg = ''Saved'',
                 Payload = [''id'' \<mapsto> Id' page, ''name'' \<mapsto> Name page]\<rparr>"
  using assms
  by (auto simp add: apiPost_def Let_def split: sum.splits prod.splits option.splits if_splits)

section \<open>The handlers on the sample requests\<close>

lemma slug_hello: "asciiSlugify ''Hello, World!'' = ''hello-world''"
  by code_simp

lemma slug_again: "asciiSlugify ''Hello again'' = ''hello-again''"
  by code_simp

lemma slug_punct: "asciiSlugify ''!!!'' = []" "asciiSlugify [] = []"
  by code_simp+

lemma parse_example: "asciiParseRequestURI ''HTTP://example.com'' = Some ''http://example.com''"
  by code_simp


lemma asciiEnv_sel:
  "Slugify asciiEnv = asciiSlugify" "ParseRequestURI asciiEnv = asciiParseRequestURI"
  "MarkdownCommon asciiEnv = asciiMarkdown" "randStr asciiEnv = tapeRandStr"
  by (simp_all add: asciiEnv_def)

lemma helloRequest_form:
  "FormValue helloRequest ''title'' = ''Hello, World!''"
  "FormValue helloRequest ''content'' = ''hi''"
  "FormValue helloRequest ''author'' = ''Ann''"
  "FormValue helloRequest ''website'' = ''HTTP://example.com''"
  "FormValue helloRequest ''twitter'' = []"
  "FormValue helloRequest ''github'' = []"
  "FormValue helloRequest ''facebook'' = []"
  "FormValue helloRequest ''instagram'' = []"
  by (simp_all add: helloRequest_def FormValue_def)

lemma editRequest_form:
  "FormValue editRequest ''id'' = ''0123456789abcdef''"
  "FormValue editRequest ''name'' = ''hello-world-k3j9x2mq''"
  "FormValue editRequest ''title'' = ''Hello again''"
  "FormValue editRequest ''content'' = ''more''"
  "FormValue editRequest ''author'' = ''Ann''"
  "FormValue editRequest ''website'' = []"
  "FormValue editRequest ''twitter'' = []"
  "FormValue editRequest ''github'' = []"
  "FormValue editRequest ''facebook'' = []"
  "FormValue editRequest ''instagram'' = []"
  by (simp_all add: editRequest_def FormValue_def)

lemma guessRequest_form:
  "FormValue guessRequest ''id'' = ''guess''"
  "FormValue guessRequest ''name'' = ''hello-world-k3j9x2mq''"
  "FormValue guessRequest ''title'' = ''!!!''"
  by (simp_all add: guessRequest_def FormValue_def)

lemma validation_hello: "validation asciiEnv helloRequest = Inr (''hello-world'', ''http://example.com'')"
  by (simp add: validation_def asciiEnv_sel helloRequest_form slug_hello parse_example)

lemma apiPut_hello:
  "apiPut asciiEnv 7 helloRequest emptyDB tape =
     (sendJson \<lparr>Ok = True, Msg = ''Saved'',
                Payload = [''id'' \<mapsto> ''0123456789abcdef'', ''name'' \<mapsto> ''hello-world-k3j9x2mq'']\<rparr>,
      helloDB, [])"
  by (simp add: apiPut_def validation_hello asciiEnv_sel helloRequest_form tapeRandStr_def
      tape_def storePutPage_def emptyDB_def helloDB_def helloPage_def asciiMarkdown_def)

lemma get_hello: "storeGetPage helloDB ''hello-world-k3j9x2mq'' = Inr (Some helloPage)"
  by (simp add: storeGetPage_def helloDB_def emptyDB_def)

lemma hello_sel:
  "putErr helloDB = None" "getErr helloDB = None"
  "Id' helloPage = ''0123456789abcdef''" "Name helloPage = ''hello-world-k3j9x2mq''"
  by (simp_all add: helloDB_def emptyDB_def helloPage_def)

lemma validation_edit: "validation asciiEnv editRequest = Inr (''hello-again'', [])"
  by (simp add: validation_def asciiEnv_sel editRequest_form slug_again)

lemma apiPost_edit:
  "fst (apiPost asciiEnv 9 editRequest helloDB) =
     sendJson \<lparr>Ok = True, Msg = ''Saved'',
                Payload = [''id'' \<mapsto> ''0123456789abcdef'', ''name'' \<mapsto> ''hello-world-k3j9x2mq'']\<rparr>"
  by (simp add: apiPost_def editRequest_form get_hello validation_edit storePutPage_def
      hello_sel)

lemma saved_edit:
  "apiPost asciiEnv 9 editRequest helloDB =
     (sendJson \<lparr>Ok = True, Msg = ''Saved'',
                Payload = [''id'' \<mapsto> ''0123456789abcdef'', ''name'' \<mapsto> ''hello-world-k3j9x2mq'']\<rparr>,
      snd (apiPost asciiEnv 9 editRequest helloDB))"
  by (rule prod_eqI) (simp_all add: apiPost_edit)

section \<open>Updating a page\<close>

text \<open>
  Claim C2. When the name of an update request refers to a stored page and the id of the
  request is not the id of that page, \<open>apiPost\<close> answers "Permission denied.", the store
  is the one it was given, and the page under that name is the one that was there.
\<close>

theorem update_wrong_id_permission_denied:
  assumes "storeGetPage db (FormValue r ''name'') = Inr (Some existPage)"
    and "Id' existPage \<noteq> FormValue r ''id''"
  shows "apiPost env now r db = (sendError ''Permission denied.'', db)
       \<and> storeGetPage (snd (apiPost env now r db)) (FormValue r ''name'') = Inr (Some existPage)"
  using assms by (simp add: apiPost_def)

theorem update_wrong_id_permission_denied_witness:
  "storeGetPage helloDB (FormValue guessRequest ''name'') = Inr (Some helloPage)
   \<and> Id' helloPage \<noteq> FormValue guessRequest ''id''
   \<and> apiPost asciiEnv 9 guessRequest helloDB = (sendError ''Permission denied.'', helloDB)
   \<and> storeGetPage (snd (apiPost asciiEnv 9 guessRequest helloDB))
        (FormValue guessRequest ''name'') = Inr (Some helloPage)"
proof -
  have a: "storeGetPage helloDB (FormValue guessRequest ''name'') = Inr (Some helloPage)"
    by (simp add: guessRequest_form get_hello)
  have b: "Id' helloPage \<noteq> FormValue guessRequest ''id''"
    by (simp add: guessRequest_form hello_sel)
  from update_wrong_id_permission_denied [OF a b, of asciiEnv 9] a b show ?thesis
    by blast
qed

text \<open>
  Claim C3. When an update succeeds, the page stored afterwards has the id, the name and
  the creation time of the page that was stored before, and its update time is the time
  of the request. It differs from the old page in the title, the content, the author,
  the profile fields, the markup and the update time only.
\<close>

theorem update_keeps_id_name_created:
  assumes "apiPost env now r db = (sendJson d, db')"
  shows "\<exists>old new.
           storeGetPage db (FormValue r ''name'') = Inr (Some old)
         \<and> storeGetPage db' (Name old) = Inr (Some new)
         \<and> Id' new = Id' old \<and> Name new = Name old \<and> Inserted new = Inserted old
         \<and> Updated new = now
         \<and> new = old\<lparr>Title := FormValue r ''title'', Content := FormValue r ''content'',
                       Author := FormValue r ''author'', Website := Website new,
                       Twitter := FormValue r ''twitter'',
                       Facebook := FormValue r ''facebook'',
                       GitHub := FormValue r ''github'',
                       Instagram := FormValue r ''instagram'', Updated := now,
                       Html := MarkdownCommon env (FormValue r ''content'')\<rparr>"
proof -
  from apiPost_sendJson [OF assms] obtain slug website old new where
    g: "storeGetPage db (FormValue r ''name'') = Inr (Some old)"
    and n: "new = old\<lparr>Title := FormValue r ''title'',
                     Content := FormValue r ''content'', Author := FormValue r ''author'',
                     Website := website, Twitter := FormValue r ''twitter'',
                     Facebook := FormValue r ''facebook'', GitHub := FormValue r ''github'',
                     Instagram := FormValue r ''instagram'', Updated := now,
                     Html := MarkdownCommon env (FormValue r ''content'')\<rparr>"
    and p: "storePutPage db new = Inr db'"
    by blast
  from g have e: "getErr db = None"
    by (simp add: storeGetPage_def split: option.splits)
  from p e n have "storeGetPage db' (Name old) = Inr (Some new)"
    by (auto simp add: storePutPage_def storeGetPage_def split: option.splits)
  with g n show ?thesis
    by (intro exI [of _ old] exI [of _ new]) simp
qed

theorem update_keeps_id_name_created_witness:
  "fst (apiPost asciiEnv 9 editRequest helloDB) =
     sendJson \<lparr>Ok = True, Msg = ''Saved'',
                Payload = [''id'' \<mapsto> ''0123456789abcdef'', ''name'' \<mapsto> ''hello-world-k3j9x2mq'']\<rparr>
   \<and> (\<exists>old new.
           storeGetPage helloDB (FormValue editRequest ''name'') = Inr (Some old)
         \<and> storeGetPage (snd (apiPost asciiEnv 9 editRequest helloDB)) (Name old) = Inr (Some new)
         \<and> Id' new = Id' old \<and> Name new = Name old \<and> Inserted new = Inserted old
         \<and> Updated new = 9)"
proof -
  from update_keeps_id_name_created [OF saved_edit] obtain old new where
    "storeGetPage helloDB (FormValue editRequest ''name'') = Inr (Some old)
     \<and> storeGetPage (snd (apiPost asciiEnv 9 editRequest helloDB)) (Name old) = Inr (Some new)
     \<and> Id' new = Id' old \<and> Name new = Name old \<and> Inserted new = Inserted old
     \<and> Updated new = 9"
    by blast
  then have "\<exists>old new.
       storeGetPage helloDB (FormValue editRequest ''name'') = Inr (Some old)
     \<and> storeGetPage (snd (apiPost asciiEnv 9 editRequest helloDB)) (Name old) = Inr (Some new)
     \<and> Id' new = Id' old \<and> Name new = Name old \<and> Inserted new = Inserted old
     \<and> Updated new = 9"
    by blast
  with apiPost_edit show ?thesis
    by (simp only: simp_thms)
qed

text \<open>
  Claim C5. \<open>apiPost\<close> finds failures in this order: a name with no page gives "This
  page name does not exist.", whatever else the request holds; a page with another id
  gives "Permission denied.", whatever else the request holds; and only when the page is
  there and the id is its id does a failed validation give its message. So a wrong id
  together with an invalid title yields the permission error.
\<close>

theorem update_checks_in_order:
  "(storeGetPage db (FormValue r ''name'') = Inr None
      \<longrightarrow> apiPost env now r db = (sendError ''This page name does not exist.'', db))
   \<and> (\<forall>existPage. storeGetPage db (FormValue r ''name'') = Inr (Some existPage)
                    \<and> Id' existPage \<noteq> FormValue r ''id''
      \<longrightarrow> apiPost env now r db = (sendError ''Permission denied.'', db))
   \<and> (\<forall>existPage msg. storeGetPage db (FormValue r ''name'') = Inr (Some existPage)
                    \<and> Id' existPage = FormValue r ''id'' \<and> validation env r = Inl msg
      \<longrightarrow> apiPost env now r db = (sendError msg, db))"
  by (simp add: apiPost_def)

theorem update_checks_in_order_witness:
  "storeGetPage emptyDB (FormValue guessRequest ''name'') = Inr None
   \<and> apiPost asciiEnv 9 guessRequest emptyDB = (sendError ''This page name does not exist.'', emptyDB)
   \<and> storeGetPage helloDB (FormValue guessRequest ''name'') = Inr (Some helloPage)
   \<and> Id' helloPage \<noteq> FormValue guessRequest ''id''
   \<and> validation asciiEnv guessRequest = Inl ''Provide a title''
   \<and> apiPost asciiEnv 9 guessRequest helloDB = (sendError ''Permission denied.'', helloDB)
   \<and> Id' helloPage = FormValue (guessRequest(''id'' \<mapsto> ''0123456789abcdef'')) ''id''
   \<and> apiPost asciiEnv 9 (guessRequest(''id'' \<mapsto> ''0123456789abcdef'')) helloDB
        = (sendError ''Provide a title'', helloDB)"
proof -
  let ?r = "guessRequest(''id'' \<mapsto> ''0123456789abcdef'')"
  have a: "storeGetPage emptyDB (FormValue guessRequest ''name'') = Inr None"
    by (simp add: storeGetPage_def emptyDB_def)
  have b: "storeGetPage helloDB (FormValue guessRequest ''name'') = Inr (Some helloPage)"
    by (simp add: guessRequest_form get_hello)
  have c: "Id' helloPage \<noteq> FormValue guessRequest ''id''"
    by (simp add: guessRequest_form hello_sel)
  have d: "validation asciiEnv guessRequest = Inl ''Provide a title''"
    by (rule validation_title) (simp add: asciiEnv_sel guessRequest_form slug_punct)
  have f: "FormValue ?r ''name'' = ''hello-world-k3j9x2mq''"
    "FormValue ?r ''id'' = ''0123456789abcdef''" "FormValue ?r ''title'' = ''!!!''"
    by (simp_all add: FormValue_def guessRequest_def)
  have b': "storeGetPage helloDB (FormValue ?r ''name'') = Inr (Some helloPage)"
    by (simp add: f get_hello)
  have c': "Id' helloPage = FormValue ?r ''id''"
    by (simp add: f hello_sel)
  have d': "validation asciiEnv ?r = Inl ''Provide a title''"
    by (rule validation_title) (simp add: asciiEnv_sel f slug_punct)
  from update_checks_in_order [of emptyDB guessRequest asciiEnv 9] a
  have 1: "apiPost asciiEnv 9 guessRequest emptyDB
             = (sendError ''This page name does not exist.'', emptyDB)"
    by blast
  from update_checks_in_order [of helloDB guessRequest asciiEnv 9] b c
  have 2: "apiPost asciiEnv 9 guessRequest helloDB = (sendError ''Permission denied.'', helloDB)"
    by blast
  from update_checks_in_order [of helloDB ?r asciiEnv 9] b' c' d'
  have 3: "apiPost asciiEnv 9 ?r helloDB = (sendError ''Provide a title'', helloDB)"
    by blast
  from a b c d c' 1 2 3 show ?thesis
    by blast
qed

section \<open>Titles without a slug\<close>

text \<open>
  Claim C4, as stated, fails for updates: an update whose title has an empty slug and
  whose name has no page is answered "This page name does not exist.", not "Provide a
  title".
\<close>

theorem empty_title_counterexample:
  "Slugify asciiEnv (FormValue [''name'' \<mapsto> ''no-such-page'', ''title'' \<mapsto> ''!!!''] ''title'') = []
   \<and> apiPost asciiEnv 9 [''name'' \<mapsto> ''no-such-page'', ''title'' \<mapsto> ''!!!''] emptyDB
       = (sendError ''This page name does not exist.'', emptyDB)
   \<and> fst (apiPost asciiEnv 9 [''name'' \<mapsto> ''no-such-page'', ''title'' \<mapsto> ''!!!''] emptyDB)
       \<noteq> sendError ''Provide a title''"
proof -
  have g: "storeGetPage emptyDB n = Inr None" for n
    by (simp add: storeGetPage_def emptyDB_def)
  have a: "apiPost asciiEnv 9 [''name'' \<mapsto> ''no-such-page'', ''title'' \<mapsto> ''!!!''] emptyDB
       = (sendError ''This page name does not exist.'', emptyDB)"
    by (simp add: apiPost_def g)
  have t: "FormValue [''name'' \<mapsto> ''no-such-page'', ''title'' \<mapsto> ''!!!''] ''title'' = ''!!!''"
    by (simp add: FormValue_def)
  show ?thesis
    by (simp add: a t asciiEnv_sel slug_punct)
qed

text \<open>
  Claim C4, amended. When the slug of the title is empty, a create request is answered
  "Provide a title" and writes nothing; an update request is answered with an error and
  writes nothing, and the error is "Provide a title" when the page named is stored and
  the id of the request is its id.
\<close>

theorem empty_title_rejected:
  assumes "Slugify env (FormValue r ''title'') = []"
  shows "apiPut env now r db g = (sendError ''Provide a title'', db, g)
       \<and> (\<exists>msg. apiPost env now r db = (sendError msg, db))
       \<and> (\<forall>existPage. storeGetPage db (FormValue r ''name'') = Inr (Some existPage)
                       \<and> Id' existPage = FormValue r ''id''
            \<longrightarrow> apiPost env now r db = (sendError ''Provide a title'', db))"
proof -
  note v = validation_title [OF assms]
  have "apiPut env now r db g = (sendError ''Provide a title'', db, g)"
    by (simp add: apiPut_def v)
  moreover have "\<exists>msg. apiPost env now r db = (sendError msg, db)"
    by (simp add: apiPost_def v split: sum.splits option.splits)
  moreover have "\<forall>existPage. storeGetPage db (FormValue r ''name'') = Inr (Some existPage)
                       \<and> Id' existPage = FormValue r ''id''
            \<longrightarrow> apiPost env now r db = (sendError ''Provide a title'', db)"
    by (simp add: apiPost_def v)
  ultimately show ?thesis by blast
qed

theorem empty_title_rejected_witness:
  "Slugify asciiEnv (FormValue guessRequest ''title'') = []
   \<and> apiPut asciiEnv 7 guessRequest helloDB tape = (sendError ''Provide a title'', helloDB, tape)
   \<and> (\<exists>msg. apiPost asciiEnv 9 guessRequest helloDB = (sendError msg, helloDB))
   \<and> Slugify asciiEnv (FormValue (guessRequest(''id'' \<mapsto> ''0123456789abcdef'')) ''title'') = []
   \<and> storeGetPage helloDB (FormValue (guessRequest(''id'' \<mapsto> ''0123456789abcdef'')) ''name'')
        = Inr (Some helloPage)
   \<and> Id' helloPage = FormValue (guessRequest(''id'' \<mapsto> ''0123456789abcdef'')) ''id''
   \<and> apiPost asciiEnv 9 (guessRequest(''id'' \<mapsto> ''0123456789abcdef'')) helloDB
        = (sendError ''Provide a title'', helloDB)"
proof -
  let ?r = "guessRequest(''id'' \<mapsto> ''0123456789abcdef'')"
  have a: "Slugify asciiEnv (FormValue guessRequest ''title'') = []"
    by (simp add: asciiEnv_sel guessRequest_form slug_punct)
  have f: "FormValue ?r ''name'' = ''hello-world-k3j9x2mq''"
    "FormValue ?r ''id'' = ''0123456789abcdef''" "FormValue ?r ''title'' = ''!!!''"
    by (simp_all add: FormValue_def guessRequest_def)
  have a': "Slugify asciiEnv (FormValue ?r ''title'') = []"
    by (simp add: asciiEnv_sel f slug_punct)
  have b': "storeGetPage helloDB (FormValue ?r ''name'') = Inr (Some helloPage)"
    by (simp add: f get_hello)
  have c': "Id' helloPage = FormValue ?r ''id''"
    by (simp add: f hello_sel)
  from empty_title_rejected [OF a, of 7 helloDB tape] empty_title_rejected [OF a, of 9 helloDB]
    empty_title_rejected [OF a', of 9 helloDB] a a' b' c' show ?thesis
    by blast
qed

section \<open>The markup of stored pages\<close>

lemma rendered_Put:
  assumes "rendered env db" and "Html page = MarkdownCommon env (Content page)"
    and "storePutPage db page = Inr db'"
  shows "rendered env db'"
  using assms
  by (auto simp add: rendered_def storePutPage_def split: option.splits if_splits)

text \<open>
  Claim C6. After a successful create or update, the page stored under the name that is
  returned has the content of the request, and its markup is the rendering of that
  content. Moreover every request, successful or not, takes a rendered store to a
  rendered store: no page is stored with markup that is stale for its content.
\<close>

theorem rendered_markup_current:
  "(apiPut env now r db g = (sendJson d, db', g') \<longrightarrow>
      (\<exists>page. Payload d ''name'' = Some (Name page) \<and> byName db' (Name page) = Some page
             \<and> Content page = FormValue r ''content''
             \<and> Html page = MarkdownCommon env (Content page)))
   \<and> (apiPost env now r db = (sendJson d, db') \<longrightarrow>
      (\<exists>page. Payload d ''name'' = Some (Name page) \<and> byName db' (Name page) = Some page
             \<and> Content page = FormValue r ''content''
             \<and> Html page = MarkdownCommon env (Content page)))
   \<and> (rendered env db \<longrightarrow> rendered env (fst (snd (apiPut env now r db g)))
                          \<and> rendered env (snd (apiPost env now r db)))"
proof (intro conjI impI)
  assume "apiPut env now r db g = (sendJson d, db', g')"
  from apiPut_sendJson [OF this] obtain slug website ident suffix page where
    pg: "page = \<lparr>Id' = ident, Name = slug @ ''-'' @ suffix,
                    Title = FormValue r ''title'', Author = FormValue r ''author'',
                    Website = website, Content = FormValue r ''content'',
                    Twitter = FormValue r ''twitter'', Facebook = FormValue r ''facebook'',
                    GitHub = FormValue r ''github'', Instagram = FormValue r ''instagram'',
                    Inserted = now, Updated = now,
                    Html = MarkdownCommon env (FormValue r ''content'')\<rparr>"
    and st: "storePutPage db page = Inr db'"
    and d: "d = \<lparr>Ok = True, Msg = ''Saved'',
          Payload = [''id'' \<mapsto> Id' page, ''name'' \<mapsto> Name page]\<rparr>"
    by blast
  have "Payload d ''name'' = Some (Name page)"
    by (simp add: d)
  moreover from storePutPage_Inr [OF st] have "byName db' (Name page) = Some page"
    by simp
  moreover have "Content page = FormValue r ''content''"
    and "Html page = MarkdownCommon env (Content page)"
    by (simp_all add: pg)
  ultimately show "\<exists>page. Payload d ''name'' = Some (Name page)
             \<and> byName db' (Name page) = Some page
             \<and> Content page = FormValue r ''content''
             \<and> Html page = MarkdownCommon env (Content page)"
    by blast
next
  assume "apiPost env now r db = (sendJson d, db')"
  from apiPost_sendJson [OF this] obtain website existPage page where
    pg: "page = existPage\<lparr>Title := FormValue r ''title'',
                     Content := FormValue r ''content'', Author := FormValue r ''author'',
                     Website := website, Twitter := FormValue r ''twitter'',
                     Facebook := FormValue r ''facebook'', GitHub := FormValue r ''github'',
                     Instagram := FormValue r ''instagram'', Updated := now,
                     Html := MarkdownCommon env (FormValue r ''content'')\<rparr>"
    and st: "storePutPage db page = Inr db'"
    and d: "d = \<lparr>Ok = True, Msg = ''Saved'',
          Payload = [''id'' \<mapsto> Id' page, ''name'' \<mapsto> Name page]\<rparr>"
    by blast
  have "Payload d ''name'' = Some (Name page)"
    by (simp add: d)
  moreover from storePutPage_Inr [OF st] have "byName db' (Name page) = Some page"
    by simp
  moreover have "Content page = FormValue r ''content''"
    and "Html page = MarkdownCommon env (Content page)"
    by (simp_all add: pg)
  ultimately show "\<exists>page. Payload d ''name'' = Some (Name page)
             \<and> byName db' (Name page) = Some page
             \<and> Content page = FormValue r ''content''
             \<and> Html page = MarkdownCommon env (Content page)"
    by blast
next
  assume i: "rendered env db"
  show "rendered env (fst (snd (apiPut env now r db g)))"
    using i
    by (auto simp add: apiPut_def Let_def split: sum.splits prod.splits
        intro!: rendered_Put [OF i])
next
  assume i: "rendered env db"
  show "rendered env (snd (apiPost env now r db))"
    using i
    by (auto simp add: apiPost_def Let_def split: sum.splits prod.splits option.splits
        intro!: rendered_Put [OF i])
qed

theorem rendered_markup_current_witness:
  "apiPut asciiEnv 7 helloRequest emptyDB tape =
     (sendJson \<lparr>Ok = True, Msg = ''Saved'',
                Payload = [''id'' \<mapsto> ''0123456789abcdef'', ''name'' \<mapsto> ''hello-world-k3j9x2mq'']\<rparr>,
      helloDB, [])
   \<and> (\<exists>page. byName helloDB (Name page) = Some page
             \<and> Content page = FormValue helloRequest ''content''
             \<and> Html page = MarkdownCommon asciiEnv (Content page))
   \<and> fst (apiPost asciiEnv 9 editRequest helloDB) =
     sendJson \<lparr>Ok = True, Msg = ''Saved'',
                Payload = [''id'' \<mapsto> ''0123456789abcdef'', ''name'' \<mapsto> ''hello-world-k3j9x2mq'']\<rparr>
   \<and> (\<exists>page. byName (snd (apiPost asciiEnv 9 editRequest helloDB)) (Name page) = Some page
             \<and> Content page = FormValue editRequest ''content''
             \<and> Html page = MarkdownCommon asciiEnv (Content page))
   \<and> rendered asciiEnv emptyDB
   \<and> rendered asciiEnv (fst (snd (apiPut asciiEnv 7 helloRequest emptyDB tape)))
   \<and> rendered asciiEnv (snd (apiPost asciiEnv 9 helloRequest emptyDB))"
proof -
  have e: "rendered asciiEnv emptyDB"
    by (simp add: rendered_def emptyDB_def)
  from rendered_markup_current [of asciiEnv 7 helloRequest emptyDB tape _ helloDB "[]"]
    apiPut_hello
  have 1: "\<exists>page. byName helloDB (Name page) = Some page
             \<and> Content page = FormValue helloRequest ''content''
             \<and> Html page = MarkdownCommon asciiEnv (Content page)"
    by blast
  from rendered_markup_current [of asciiEnv 9 editRequest helloDB]
    saved_edit
  have 2: "\<exists>page. byName (snd (apiPost asciiEnv 9 editRequest helloDB)) (Name page) = Some page
             \<and> Content page = FormValue editRequest ''content''
             \<and> Html page = MarkdownCommon asciiEnv (Content page)"
    by blast
  from rendered_markup_current [of asciiEnv 7 helloRequest emptyDB tape] e
  have 3: "rendered asciiEnv (fst (snd (apiPut asciiEnv 7 helloRequest emptyDB tape)))
   \<and> rendered asciiEnv (snd (apiPost asciiEnv 7 helloRequest emptyDB))"
    by blast
  from rendered_markup_current [of asciiEnv 9 helloRequest emptyDB tape] e
  have 4: "rendered asciiEnv (snd (apiPost asciiEnv 9 helloRequest emptyDB))"
    by blast
  from apiPut_hello apiPost_edit e 1 2 3 4 show ?thesis
    by blast
qed

section \<open>The website\<close>




section \<open>What a create request returns\<close>

text \<open>
  Claim C8, as stated, fails: the answer to a successful create carries the id and the
  name of the new page and no other field, although the page that is stored has a title
  and a content.
\<close>

theorem create_full_page_counterexample:
  "apiPut asciiEnv 7 helloRequest emptyDB tape =
     (sendJson \<lparr>Ok = True, Msg = ''Saved'',
                Payload = [''id'' \<mapsto> ''0123456789abcdef'', ''name'' \<mapsto> ''hello-world-k3j9x2mq'']\<rparr>,
      helloDB, [])
   \<and> map_option Title (byName helloDB ''hello-world-k3j9x2mq'') = Some ''Hello, World!''
   \<and> map_option Content (byName helloDB ''hello-world-k3j9x2mq'') = Some ''hi''
   \<and> [''id'' \<mapsto> ''0123456789abcdef'', ''name'' \<mapsto> ''hello-world-k3j9x2mq''] ''title'' = None
   \<and> [''id'' \<mapsto> ''0123456789abcdef'', ''name'' \<mapsto> ''hello-world-k3j9x2mq''] ''content'' = None"
  by (simp add: apiPut_hello) (simp add: helloDB_def helloPage_def)

text \<open>
  Claim C8, amended. The answer to a successful create request is the structure with
  \<open>Ok\<close> true, the message "Saved" and a payload whose keys are exactly "id" and
  "name", bound to the id and the name of the page that has been stored.
\<close>

theorem create_returns_id_and_name:
  assumes "apiPut env now r db g = (sendJson d, db', g')"
  shows "Ok d \<and> Msg d = ''Saved'' \<and> dom (Payload d) = {''id'', ''name''}
       \<and> (\<exists>page. byName db' (Name page) = Some page
                \<and> Payload d ''id'' = Some (Id' page) \<and> Payload d ''name'' = Some (Name page))"
proof -
  from apiPut_sendJson [OF assms] obtain page where
    st: "storePutPage db page = Inr db'"
    and d: "d = \<lparr>Ok = True, Msg = ''Saved'',
          Payload = [''id'' \<mapsto> Id' page, ''name'' \<mapsto> Name page]\<rparr>"
    by blast
  from storePutPage_Inr [OF st] have "byName db' (Name page) = Some page"
    by simp
  moreover have "Payload d ''id'' = Some (Id' page)" "Payload d ''name'' = Some (Name page)"
    by (simp_all add: d)
  moreover have "Ok d" "Msg d = ''Saved''" "dom (Payload d) = {''id'', ''name''}"
    by (auto simp add: d)
  ultimately show ?thesis
    by blast
qed

theorem create_returns_id_and_name_witness:
  "apiPut asciiEnv 7 helloRequest emptyDB tape =
     (sendJson \<lparr>Ok = True, Msg = ''Saved'',
                Payload = [''id'' \<mapsto> ''0123456789abcdef'', ''name'' \<mapsto> ''hello-world-k3j9x2mq'']\<rparr>,
      helloDB, [])
   \<and> dom [''id'' \<mapsto> ''0123456789abcdef'', ''name'' \<mapsto> ''hello-world-k3j9x2mq'']
        = {''id'', ''name''}
   \<and> (\<exists>page. byName helloDB (Name page) = Some page
            \<and> Id' page = ''0123456789abcdef'' \<and> Name page = ''hello-world-k3j9x2mq'')"
proof -
  let ?d = "\<lparr>Ok = True, Msg = ''Saved'',
             Payload = [''id'' \<mapsto> ''0123456789abcdef'', ''name'' \<mapsto> ''hello-world-k3j9x2mq'']\<rparr>"
  from create_returns_id_and_name [OF apiPut_hello] obtain page where
    1: "dom (Payload ?d) = {''id'', ''name''}"
    and 2: "byName helloDB (Name page) = Some page"
    and 3: "Payload ?d ''id'' = Some (Id' page)"
    and 4: "Payload ?d ''name'' = Some (Name page)"
    by blast
  from 1 have 5: "dom [''id'' \<mapsto> ''0123456789abcdef'', ''name'' \<mapsto> ''hello-world-k3j9x2mq'']
        = {''id'', ''name''}"
    by (simp only: data.simps)
  from 3 have 6: "Id' page = ''0123456789abcdef''"
    by simp
  from 4 have 7: "Name page = ''hello-world-k3j9x2mq''"
    by simp
  from apiPut_hello 5 2 6 7 show ?thesis
    by blast
qed

text \<open>
  Claim C9. The name returned by a successful create request is the slug of the title,
  then a dash, then the string that the generator draws second, after the id; such a
  name is not empty.
\<close>

theorem create_name_is_slug_dash_suffix:
  assumes "apiPut env now r db g = (sendJson d, db', g')"
  shows "\<exists>ident g1 suffix page.
           randStr env 16 g = (ident, g1) \<and> randStr env 8 g1 = (suffix, g')
         \<and> Payload d ''name'' = Some (Name page) \<and> byName db' (Name page) = Some page
         \<and> Name page = Slugify env (FormValue r ''title'') @ ''-'' @ suffix
         \<and> Name page \<noteq> []"
proof -
  from apiPut_sendJson [OF assms] obtain slug website ident g1 suffix page where
    v: "validation env r = Inr (slug, website)"
    and r1: "randStr env 16 g = (ident, g1)" and r2: "randStr env 8 g1 = (suffix, g')"
    and pg: "page = \<lparr>Id' = ident, Name = slug @ ''-'' @ suffix,
                    Title = FormValue r ''title'', Author = FormValue r ''author'',
                    Website = website, Content = FormValue r ''content'',
                    Twitter = FormValue r ''twitter'', Facebook = FormValue r ''facebook'',
                    GitHub = FormValue r ''github'', Instagram = FormValue r ''instagram'',
                    Inserted = now, Updated = now,
                    Html = MarkdownCommon env (FormValue r ''content'')\<rparr>"
    and st: "storePutPage db page = Inr db'"
    and d: "d = \<lparr>Ok = True, Msg = ''Saved'',
          Payload = [''id'' \<mapsto> Id' page, ''name'' \<mapsto> Name page]\<rparr>"
    by blast
  from validation_Inr(1) [OF v] pg
  have n: "Name page = Slugify env (FormValue r ''title'') @ ''-'' @ suffix"
    by simp
  then have "Name page \<noteq> []"
    by simp
  moreover have "Payload d ''name'' = Some (Name page)"
    by (simp add: d)
  moreover from storePutPage_Inr [OF st] have "byName db' (Name page) = Some page"
    by simp
  ultimately show ?thesis
    using r1 r2 n by blast
qed

theorem create_name_is_slug_dash_suffix_witness:
  "apiPut asciiEnv 7 helloRequest emptyDB tape =
     (sendJson \<lparr>Ok = True, Msg = ''Saved'',
                Payload = [''id'' \<mapsto> ''0123456789abcdef'', ''name'' \<mapsto> ''hello-world-k3j9x2mq'']\<rparr>,
      helloDB, [])
   \<and> Slugify asciiEnv (FormValue helloRequest ''title'') = ''hello-world''
   \<and> randStr asciiEnv 16 tape = (''0123456789abcdef'', [''k3j9x2mq''])
   \<and> randStr asciiEnv 8 [''k3j9x2mq''] = (''k3j9x2mq'', [])
   \<and> (\<exists>ident g1 suffix page.
           randStr asciiEnv 16 tape = (ident, g1) \<and> randStr asciiEnv 8 g1 = (suffix, [])
         \<and> byName helloDB (Name page) = Some page
         \<and> Name page = Slugify asciiEnv (FormValue helloRequest ''title'') @ ''-'' @ suffix
         \<and> Name page \<noteq> [])"
proof -
  have a: "Slugify asciiEnv (FormValue helloRequest ''title'') = ''hello-world''"
    by (simp add: asciiEnv_sel helloRequest_form slug_hello)
  have b: "randStr asciiEnv 16 tape = (''0123456789abcdef'', [''k3j9x2mq''])"
    "randStr asciiEnv 8 [''k3j9x2mq''] = (''k3j9x2mq'', [])"
    by (simp_all add: asciiEnv_sel tapeRandStr_def tape_def)
  from create_name_is_slug_dash_suffix [OF apiPut_hello]
  have "\<exists>ident g1 suffix page.
           randStr asciiEnv 16 tape = (ident, g1) \<and> randStr asciiEnv 8 g1 = (suffix, [])
         \<and> byName helloDB (Name page) = Some page
         \<and> Name page = Slugify asciiEnv (FormValue helloRequest ''title'') @ ''-'' @ suffix
         \<and> Name page \<noteq> []"
    by blast
  with apiPut_hello a b show ?thesis
    by blast
qed

section \<open>Digits in handles\<close>

text \<open>
  Claim C1. The four validators accept a handle exactly when each byte of the
  lower-cased handle is in the alphabet of the validator, and the alphabets hold the
  letters and one more symbol (\<open>validators_letters_only\<close>): they hold no digit. So
  the validators reject the handles below, each of which has a digit, and a create
  request with such a twitter handle is answered with the message that says that numbers
  are allowed.
\<close>

theorem handles_with_digits_rejected:
  "\<not> isValidTwitterHandle ''john123'' \<and> \<not> isValidGitHubHandle ''repo42''
   \<and> \<not> isValidFacebookHandle ''jane.doe.7'' \<and> \<not> isValidInstagramHandle ''user2016''
   \<and> apiPut asciiEnv 7 [''title'' \<mapsto> ''Hello, World!'', ''twitter'' \<mapsto> ''john123''] emptyDB tape
       = (sendError ''Invalid Twitter Handle. Only letters, numbers, and underscore allowed.'',
          emptyDB, tape)"
proof -
  let ?r = "[''title'' \<mapsto> ''Hello, World!'', ''twitter'' \<mapsto> ''john123'']"
  have h: "\<not> isValidTwitterHandle ''john123''" "\<not> isValidGitHubHandle ''repo42''"
    "\<not> isValidFacebookHandle ''jane.doe.7''" "\<not> isValidInstagramHandle ''user2016''"
    by code_simp+
  have f: "FormValue ?r ''title'' = ''Hello, World!''" "FormValue ?r ''website'' = []"
    "FormValue ?r ''twitter'' = ''john123''"
    by (simp_all add: FormValue_def)
  have v: "validation asciiEnv ?r
             = Inl ''Invalid Twitter Handle. Only letters, numbers, and underscore allowed.''"
    by (simp add: validation_def f asciiEnv_sel slug_hello h)
  have "apiPut asciiEnv 7 ?r emptyDB tape
       = (sendError ''Invalid Twitter Handle. Only letters, numbers, and underscore allowed.'',
          emptyDB, tape)"
    by (simp add: apiPut_def v)
  with h show ?thesis
    by blast
qed

end
